theory Spec2Isabelle
  imports Main "HOL-Library.Word" "HOL-Library.Multiset" "HOL-Library.Sublist"
begin

section \<open>Values exchanged between the React client and the REST API\<close>

text \<open>
  A JavaScript string is a sequence of UTF-16 code units. String literals of the source
  (\<^verbatim>\<open>'To-Do'\<close>, \<^verbatim>\<open>'Bearer '\<close>) are ASCII and are written with \<open>js\<close>.
\<close>

type_synonym js_string = "16 word list"

definition js :: "string \<Rightarrow> js_string" where
  "js s = map (\<lambda>c. of_nat (of_char c)) s"

text \<open>The JSON values a field of a request or of a response can hold.\<close>

datatype json = JUndefined | JNull | JBool bool | JNum int | JStr js_string

text \<open>JavaScript's \<^verbatim>\<open>===\<close> on these primitive values.\<close>

fun strict_eq :: "json \<Rightarrow> json \<Rightarrow> bool" where
  "strict_eq JUndefined JUndefined = True"
| "strict_eq JNull JNull = True"
| "strict_eq (JBool a) (JBool b) = (a = b)"
| "strict_eq (JNum a) (JNum b) = (a = b)"
| "strict_eq (JStr a) (JStr b) = (a = b)"
| "strict_eq _ _ = False"

text \<open>A task as the client receives it from \<^verbatim>\<open>GET /projects/{id}/tasks\<close>.\<close>

record task =
  task_id :: js_string
  title :: js_string
  description :: json
  status :: json
  assignee_name :: json
  due_date :: json

text \<open>
  A project as the client receives it from \<^verbatim>\<open>GET /projects\<close> and
  \<^verbatim>\<open>GET /projects/{id}\<close>. The field \<open>member_details\<close> may be missing: the source reads
  it with \<^verbatim>\<open>project.member_details?.map\<close>.
\<close>

record member =
  member_id :: js_string
  member_name :: js_string

record project_data =
  project_id :: js_string
  project_name :: js_string
  member_details :: "member list option"

record comment =
  comment_id :: js_string
  comment_user_name :: json
  message :: js_string
  timestamp :: js_string

record user_data =
  user_id :: js_string
  user_name :: js_string
  user_email :: js_string

section \<open>Requests and notifications\<close>

datatype http_method = GET | POST | PUT | DELETE

text \<open>The routes below \<^verbatim>\<open>${API}\<close> that the client calls.\<close>

datatype route =
    AuthMe | AuthLogin | AuthRegister
  | Projects | ProjectById js_string | ProjectMembers js_string
  | ProjectTasks js_string | ProjectComments js_string
  | TaskById js_string | UsersMeTasks

text \<open>
  What a handler does besides updating state: an axios call with its JSON body (an object
  literal, as the list of its keys and values in the order written) or a toast.
\<close>

datatype effect =
    Request http_method route "(string \<times> json) list"
  | ToastSuccess string
  | ToastError string

section \<open>AuthProvider\<close>

text \<open>
  The React state \<open>user\<close>, \<open>token\<close>, \<open>loading\<close> of AuthProvider, together with the two
  pieces of ambient state its functions write: the \<^verbatim>\<open>'token'\<close> entry of localStorage and
  \<^verbatim>\<open>axios.defaults.headers.common['Authorization']\<close>.
\<close>

record auth =
  user :: "user_data option"
  token :: "js_string option"
  loading :: bool
  stored_token :: "js_string option"
  authorization :: "js_string option"

text \<open>JavaScript truthiness of a value that is null or a string, as in \<^verbatim>\<open>if (token)\<close>.\<close>

fun truthy :: "js_string option \<Rightarrow> bool" where
  "truthy None = False"
| "truthy (Some s) = (s \<noteq> [])"

text \<open>The template literal \<^verbatim>\<open>`Bearer ${token}`\<close>.\<close>

definition bearer :: "js_string \<Rightarrow> js_string" where
  "bearer t = js ''Bearer '' @ t"

definition logout :: "auth \<Rightarrow> auth" where
  "logout st = st\<lparr>stored_token := None, token := None, user := None, authorization := None\<rparr>"

text \<open>
  The effect on \<^verbatim>\<open>[token, fetchUser]\<close>: with a token it sets the header and calls
  fetchUser (which sends \<^verbatim>\<open>GET /auth/me\<close>), without one it ends loading.
\<close>

definition token_effect :: "auth \<Rightarrow> auth \<times> effect list" where
  "token_effect st =
     (case token st of
        Some t \<Rightarrow>
          if t \<noteq> [] then (st\<lparr>authorization := Some (bearer t)\<rparr>, [Request GET AuthMe []])
          else (st\<lparr>loading := False\<rparr>, [])
      | None \<Rightarrow> (st\<lparr>loading := False\<rparr>, []))"

text \<open>
  Mounting: the initial \<^verbatim>\<open>useState\<close> values, \<open>token\<close> read from localStorage, then the
  effect. The argument is the localStorage entry found at page load.
\<close>

definition mount :: "js_string option \<Rightarrow> auth \<times> effect list" where
  "mount ls = token_effect
     \<lparr>user = None, token = ls, loading = True, stored_token = ls, authorization = None\<rparr>"

text \<open>The outcome of an awaited axios call: the response data, or a rejection.\<close>

datatype api_error = Http nat | NetworkError

text \<open>fetchUser after its await: \<^verbatim>\<open>try { setUser } catch { logout() } finally { setLoading(false) }\<close>.\<close>

definition fetchUser_settled :: "auth \<Rightarrow> api_error + user_data \<Rightarrow> auth" where
  "fetchUser_settled st r =
     (case r of
        Inr u \<Rightarrow> st\<lparr>user := Some u, loading := False\<rparr>
      | Inl e \<Rightarrow> (logout st)\<lparr>loading := False\<rparr>)"

text \<open>
  login and register after their await. On success the four writes; the token effect
  runs again when the state \<open>token\<close> has changed. On rejection nothing is written (the
  function returns \<^verbatim>\<open>{success: false, error}\<close>).
\<close>

definition login_settled :: "auth \<Rightarrow> api_error + (js_string \<times> user_data) \<Rightarrow> auth \<times> effect list" where
  "login_settled st r =
     (case r of
        Inr (access_token, userData) \<Rightarrow>
          let st' = st\<lparr>stored_token := Some access_token, token := Some access_token,
                       user := Some userData, authorization := Some (bearer access_token)\<rparr>
          in if token st = Some access_token then (st', []) else token_effect st'
      | Inl e \<Rightarrow> (st, []))"

text \<open>The logout button: logout, then the token effect if \<open>token\<close> was not null already.\<close>

definition logout_clicked :: "auth \<Rightarrow> auth" where
  "logout_clicked st =
     (if token st = None then logout st else fst (token_effect (logout st)))"

text \<open>
  What can happen to a mounted AuthProvider. A fetchUser response is accepted at any
  time, which covers every order in which pending calls can settle.
\<close>

datatype auth_event =
    LoginSettled "api_error + (js_string \<times> user_data)"
  | RegisterSettled "api_error + (js_string \<times> user_data)"
  | LogoutClicked
  | FetchUserSettled "api_error + user_data"

fun auth_step :: "auth \<Rightarrow> auth_event \<Rightarrow> auth" where
  "auth_step st (LoginSettled r) = fst (login_settled st r)"
| "auth_step st (RegisterSettled r) = fst (login_settled st r)"
| "auth_step st LogoutClicked = logout_clicked st"
| "auth_step st (FetchUserSettled r) = fetchUser_settled st r"

definition auth_run :: "js_string option \<Rightarrow> auth_event list \<Rightarrow> auth" where
  "auth_run ls evs = foldl auth_step (fst (mount ls)) evs"

text \<open>The access token a settled login or register carries, if it succeeded.\<close>

fun issued_token :: "auth_event \<Rightarrow> js_string option" where
  "issued_token (LoginSettled (Inr (t, u))) = Some t"
| "issued_token (RegisterSettled (Inr (t, u))) = Some t"
| "issued_token _ = None"

text \<open>A request as axios sends it: the call with the default Authorization header.\<close>

definition axios_send :: "auth \<Rightarrow> effect \<Rightarrow> effect \<times> js_string option" where
  "axios_send st call = (call, authorization st)"

text \<open>The invariant: the header is present exactly for a truthy token, and is its Bearer form.\<close>

definition header_matches_token :: "auth \<Rightarrow> bool" where
  "header_matches_token st \<longleftrightarrow>
     authorization st = (if truthy (token st) then map_option bearer (token st) else None)"

section \<open>ProjectDashboard and ProjectCard\<close>

text \<open>
  ProjectCard's handleDelete sends \<^verbatim>\<open>DELETE /projects/{project.id}\<close>; once the call has
  settled it either calls \<open>onDelete(project.id)\<close>, which is ProjectDashboard's handleDelete,
  or shows the error toast and writes nothing. The card's own dialog flag is left out.

  ProjectDashboard's handleDelete is \<^verbatim>\<open>setProjects(projects.filter(p => p.id !== projectId))\<close>:
  it filters the \<open>projects\<close> of the render that made it and replaces the state by the
  result. ProjectCard calls the \<open>onDelete\<close> it held when the button was clicked, after the
  await. So the continuation has two lists: \<open>captured\<close>, the \<open>projects\<close> of the render
  in which the delete was started, and \<open>current\<close>, the state when the call settles.
\<close>

definition ProjectCard_handleDelete :: "project_data \<Rightarrow> effect list" where
  "ProjectCard_handleDelete p = [Request DELETE (ProjectById (project_id p)) []]"

definition ProjectDashboard_handleDelete :: "project_data list \<Rightarrow> js_string \<Rightarrow> project_data list" where
  "ProjectDashboard_handleDelete projects projectId = filter (\<lambda>p. project_id p \<noteq> projectId) projects"

definition ProjectCard_handleDelete_settled ::
  "project_data list \<Rightarrow> project_data list \<Rightarrow> project_data \<Rightarrow> api_error + unit \<Rightarrow>
   project_data list \<times> effect list" where
  "ProjectCard_handleDelete_settled captured current p r =
     (case r of
        Inr _ \<Rightarrow> (ProjectDashboard_handleDelete captured (project_id p),
                  [ToastSuccess ''Project deleted successfully''])
      | Inl e \<Rightarrow> (current, [ToastError ''Failed to delete project'']))"

text \<open>
  What changes the \<open>projects\<close> state of a mounted ProjectDashboard: a fetchProjects
  that settles with the server's list, and a delete that settles, which carries the list
  it captured.
\<close>

datatype dashboard_event =
    ProjectsFetched "project_data list"
  | DeleteSettled "project_data list" project_data "api_error + unit"

fun dashboard_step :: "project_data list \<Rightarrow> dashboard_event \<Rightarrow> project_data list" where
  "dashboard_step current (ProjectsFetched ps) = ps"
| "dashboard_step current (DeleteSettled captured p r) =
     fst (ProjectCard_handleDelete_settled captured current p r)"

section \<open>MyTasks\<close>

text \<open>\<^verbatim>\<open>axios.put(`${API}/tasks/${taskId}`, { status: newStatus })\<close>, and after it settles.\<close>

definition handleStatusChange :: "js_string \<Rightarrow> js_string \<Rightarrow> effect list" where
  "handleStatusChange taskId newStatus =
     [Request PUT (TaskById taskId) [(''status'', JStr newStatus)]]"

definition handleStatusChange_settled :: "api_error + unit \<Rightarrow> effect list" where
  "handleStatusChange_settled r =
     (case r of
        Inr _ \<Rightarrow> [ToastSuccess ''Task status updated'', Request GET UsersMeTasks []]
      | Inl e \<Rightarrow> [ToastError ''Failed to update task status''])"

text \<open>
  The items of the status selector on a task card, in TaskCard and on the project board
  alike. The selector's \<open>value\<close> is the task's status; the items do not depend on it.
\<close>

definition status_options :: "task \<Rightarrow> js_string list" where
  "status_options t = [js ''To-Do'', js ''In Progress'', js ''Done'']"

section \<open>ProjectDetail\<close>

text \<open>The form state \<open>newTask\<close>; every field is the string of its input.\<close>

record new_task =
  form_title :: js_string
  form_description :: js_string
  form_assignee_id :: js_string
  form_due_date :: js_string
  form_status :: js_string

text \<open>The component's state, with the prop \<open>projectId\<close> it was last rendered with.\<close>

record detail =
  projectId :: js_string
  project :: "project_data option"
  tasks :: "task list"
  comments :: "comment list"
  detail_loading :: bool
  showCreateTask :: bool
  newTask :: new_task
  newComment :: js_string

text \<open>The value \<open>newTask\<close> starts with and is reset to after a task was created.\<close>

definition blank_task :: new_task where
  "blank_task = \<lparr>form_title = [], form_description = [], form_assignee_id = [],
     form_due_date = [], form_status = js ''To-Do''\<rparr>"

definition detail_init :: "js_string \<Rightarrow> detail" where
  "detail_init pid = \<lparr>projectId = pid, project = None, tasks = [], comments = [],
     detail_loading = True, showCreateTask = False, newTask = blank_task, newComment = []\<rparr>"

definition fetchProjectData :: "js_string \<Rightarrow> effect list" where
  "fetchProjectData pid =
     [Request GET (ProjectById pid) [], Request GET (ProjectTasks pid) [],
      Request GET (ProjectComments pid) []]"

text \<open>
  handleCreateTask up to its await. The body is \<^verbatim>\<open>{...newTask, due_date: ...}\<close>: the
  keys of newTask in their order, \<open>due_date\<close> replaced by the ISO string of a non-empty
  input and by null otherwise. \<open>toISOString\<close> is a parameter; it throws a RangeError on an
  invalid date (\<open>None\<close>), which the handler's catch turns into the error toast.
\<close>

definition create_task_body :: "(js_string \<Rightarrow> js_string option) \<Rightarrow> new_task \<Rightarrow> (string \<times> json) list option" where
  "create_task_body toISOString nt =
     (case (if form_due_date nt \<noteq> [] then map_option JStr (toISOString (form_due_date nt))
            else Some JNull) of
        None \<Rightarrow> None
      | Some d \<Rightarrow> Some
          [(''title'', JStr (form_title nt)),
           (''description'', JStr (form_description nt)),
           (''assignee_id'', JStr (form_assignee_id nt)),
           (''due_date'', d),
           (''status'', JStr (form_status nt))])"

definition handleCreateTask :: "(js_string \<Rightarrow> js_string option) \<Rightarrow> detail \<Rightarrow> effect list" where
  "handleCreateTask toISOString st =
     (case create_task_body toISOString (newTask st) of
        None \<Rightarrow> [ToastError ''Failed to create task'']
      | Some body \<Rightarrow> [Request POST (ProjectTasks (projectId st)) body])"

text \<open>
  The handlers after their await. The setters act on the state at that time \<open>st\<close>; the
  \<open>fetchProjectData\<close> they call is the one of the render that started the call
  (\<^verbatim>\<open>useCallback(..., [projectId])\<close>), so it fetches for that render's \<open>projectId\<close>, the
  argument \<open>submitted\<close>.
\<close>

definition handleCreateTask_settled ::
  "js_string \<Rightarrow> detail \<Rightarrow> api_error + unit \<Rightarrow> detail \<times> effect list" where
  "handleCreateTask_settled submitted st r =
     (case r of
        Inr _ \<Rightarrow> (st\<lparr>newTask := blank_task, showCreateTask := False\<rparr>,
                  ToastSuccess ''Task created successfully'' # fetchProjectData submitted)
      | Inl e \<Rightarrow> (st, [ToastError ''Failed to create task'']))"

definition handleUpdateTaskStatus :: "js_string \<Rightarrow> js_string \<Rightarrow> effect list" where
  "handleUpdateTaskStatus taskId newStatus =
     [Request PUT (TaskById taskId) [(''status'', JStr newStatus)]]"

definition handleUpdateTaskStatus_settled :: "js_string \<Rightarrow> api_error + unit \<Rightarrow> effect list" where
  "handleUpdateTaskStatus_settled submitted r =
     (case r of
        Inr _ \<Rightarrow> ToastSuccess ''Task status updated'' # fetchProjectData submitted
      | Inl e \<Rightarrow> [ToastError ''Failed to update task status''])"

text \<open>
  \<^verbatim>\<open>String.prototype.trim\<close> removes leading and trailing WhiteSpace and LineTerminator
  code points: TAB, LF, VT, FF, CR, SP, NBSP, the Unicode space separators, LS, PS and
  the byte order mark. All of them are single UTF-16 code units.
\<close>

definition is_js_whitespace :: "16 word \<Rightarrow> bool" where
  "is_js_whitespace c \<longleftrightarrow>
     c \<in> {0x0009, 0x000A, 0x000B, 0x000C, 0x000D, 0x0020, 0x00A0, 0x1680,
          0x2000, 0x2001, 0x2002, 0x2003, 0x2004, 0x2005, 0x2006, 0x2007, 0x2008, 0x2009, 0x200A,
          0x2028, 0x2029, 0x202F, 0x205F, 0x3000, 0xFEFF}"

definition trim :: "js_string \<Rightarrow> js_string" where
  "trim s = rev (dropWhile is_js_whitespace (rev (dropWhile is_js_whitespace s)))"

text \<open>
  handleAddComment up to its await: \<^verbatim>\<open>if (!newComment.trim()) return;\<close>, then the POST
  of \<^verbatim>\<open>{ message: newComment }\<close>. No state is written before the call has settled.
\<close>

definition handleAddComment :: "detail \<Rightarrow> detail \<times> effect list" where
  "handleAddComment st =
     (if trim (newComment st) = [] then (st, [])
      else (st, [Request POST (ProjectComments (projectId st)) [(''message'', JStr (newComment st))]]))"

definition handleAddComment_settled ::
  "js_string \<Rightarrow> detail \<Rightarrow> api_error + unit \<Rightarrow> detail \<times> effect list" where
  "handleAddComment_settled submitted st r =
     (case r of
        Inr _ \<Rightarrow> (st\<lparr>newComment := []\<rparr>, fetchProjectData submitted)
      | Inl e \<Rightarrow> (st, [ToastError ''Failed to add comment'']))"

text \<open>
  The options of the assignee selector of the create-task form:
  \<^verbatim>\<open>project.member_details?.map(member => <SelectItem value={member.id}>)\<close>. The form is
  rendered only past the two early returns (\<open>loading\<close>, \<open>!project\<close>) and inside the dialog
  that \<open>showCreateTask\<close> opens.
\<close>

definition assignee_options :: "detail \<Rightarrow> js_string list" where
  "assignee_options st =
     (case project st of
        None \<Rightarrow> []
      | Some p \<Rightarrow> (case member_details p of None \<Rightarrow> [] | Some ms \<Rightarrow> map member_id ms))"

definition form_visible :: "detail \<Rightarrow> bool" where
  "form_visible st \<longleftrightarrow> \<not> detail_loading st \<and> project st \<noteq> None \<and> showCreateTask st"

text \<open>
  What can happen to a mounted ProjectDetail: the parent renders it with another
  \<open>projectId\<close> (AppContent's hashchange handler sets \<open>selectedProjectId\<close> and keeps the
  component in place, so its state stays); a fetchProjectData settles; the dialog is
  opened or closed; an input of the form changes; a submitted creation or comment
  settles (the event carries the \<open>projectId\<close> it was submitted under). The form is not
  rendered before the two early returns are passed and the dialog is open, so a form
  event in another state leaves the state as it is. The two selectors' \<open>onValueChange\<close>
  store the value they are handed, whatever it is.
\<close>

datatype detail_event =
    ProjectIdProp js_string
  | FetchSettled "api_error + (project_data \<times> task list \<times> comment list)"
  | ShowCreateTask bool
  | TitleInput js_string
  | DescriptionInput js_string
  | AssigneeSelected js_string
  | DueDateInput js_string
  | StatusSelected js_string
  | CreateTaskSettled js_string "api_error + unit"
  | CommentInput js_string
  | AddCommentSettled js_string "api_error + unit"

fun detail_step :: "detail \<Rightarrow> detail_event \<Rightarrow> detail" where
  "detail_step st (ProjectIdProp pid) = st\<lparr>projectId := pid\<rparr>"
| "detail_step st (FetchSettled (Inr (p, ts, cs))) =
     st\<lparr>project := Some p, tasks := ts, comments := cs, detail_loading := False\<rparr>"
| "detail_step st (FetchSettled (Inl e)) = st\<lparr>detail_loading := False\<rparr>"
| "detail_step st (ShowCreateTask b) =
     (if \<not> detail_loading st \<and> project st \<noteq> None then st\<lparr>showCreateTask := b\<rparr> else st)"
| "detail_step st (TitleInput v) =
     (if form_visible st then st\<lparr>newTask := (newTask st)\<lparr>form_title := v\<rparr>\<rparr> else st)"
| "detail_step st (DescriptionInput v) =
     (if form_visible st then st\<lparr>newTask := (newTask st)\<lparr>form_description := v\<rparr>\<rparr> else st)"
| "detail_step st (AssigneeSelected v) =
     (if form_visible st then st\<lparr>newTask := (newTask st)\<lparr>form_assignee_id := v\<rparr>\<rparr> else st)"
| "detail_step st (DueDateInput v) =
     (if form_visible st then st\<lparr>newTask := (newTask st)\<lparr>form_due_date := v\<rparr>\<rparr> else st)"
| "detail_step st (StatusSelected v) =
     (if form_visible st then st\<lparr>newTask := (newTask st)\<lparr>form_status := v\<rparr>\<rparr> else st)"
| "detail_step st (CreateTaskSettled submitted r) = fst (handleCreateTask_settled submitted st r)"
| "detail_step st (CommentInput v) =
     (if \<not> detail_loading st \<and> project st \<noteq> None then st\<lparr>newComment := v\<rparr> else st)"
| "detail_step st (AddCommentSettled submitted r) = fst (handleAddComment_settled submitted st r)"

definition detail_run :: "js_string \<Rightarrow> detail_event list \<Rightarrow> detail" where
  "detail_run pid evs = foldl detail_step (detail_init pid) evs"

section \<open>The task board of ProjectDetail\<close>

text \<open>
  \<^verbatim>\<open>const getTasksByStatus = (status) => tasks.filter(task => task.status === status)\<close>,
  where \<open>tasks\<close> is the component's state.
\<close>

definition getTasksByStatus :: "detail \<Rightarrow> js_string \<Rightarrow> task list" where
  "getTasksByStatus st s = filter (\<lambda>task. strict_eq (status task) (JStr s)) (tasks st)"

text \<open>The three columns the board maps over: \<^verbatim>\<open>['To-Do', 'In Progress', 'Done']\<close>.\<close>

definition board_columns :: "js_string list" where
  "board_columns = [js ''To-Do'', js ''In Progress'', js ''Done'']"

section \<open>The service behind the REST boundary\<close>

text \<open>
  The FastAPI backend (\<^verbatim>\<open>backend/server.py\<close>, \<^verbatim>\<open>backend/models.py\<close>) is not among the
  sources at hand. Its task, project and comment operations are written down here from
  sections 3, 4 and 6 of the specification; every definition of this section is such a
  model and says so.
\<close>

text \<open>Modelled from the spec: the three task states of section 3 (backend enum, not in the sources).\<close>

datatype task_status = Todo | InProgress | Done

text \<open>Modelled from the spec: the error taxonomy of sections 4 and 7 (backend, not in the sources).\<close>

datatype srv_error =
  ValidationError | Unauthenticated | Forbidden | NotFound | InvalidAssignee | AlreadyMember

text \<open>Modelled from the spec: the backend's Project of section 3; the owner is a member implicitly.\<close>

record srv_project =
  sp_id :: js_string
  sp_name :: js_string
  sp_owner :: js_string
  sp_members :: "js_string list"

text \<open>Modelled from the spec: the backend's Task of section 3.\<close>

record srv_task =
  st_id :: js_string
  st_project :: js_string
  st_title :: js_string
  st_description :: "js_string option"
  st_status :: task_status
  st_assignee :: "js_string option"
  st_due_date :: "js_string option"
  st_created :: nat

text \<open>Modelled from the spec: the backend's Comment of section 3.\<close>

record srv_comment =
  sc_id :: js_string
  sc_project :: js_string
  sc_author :: js_string
  sc_message :: js_string
  sc_timestamp :: nat

text \<open>Modelled from the spec: the backend's durable store, as far as projects, tasks and comments go.\<close>

record server =
  srv_projects :: "srv_project list"
  srv_tasks :: "srv_task list"
  srv_comments :: "srv_comment list"

text \<open>Modelled from the spec: the member set of a project, "owner implicitly included" (backend).\<close>

definition members :: "srv_project \<Rightarrow> js_string set" where
  "members p = insert (sp_owner p) (set (sp_members p))"

text \<open>Modelled from the spec: the two roles \<open>requiredRole\<close> ranges over in 4.2 (backend).\<close>

datatype role = Member | Owner

text \<open>Modelled from the spec: \<open>authorize(project, user, requiredRole)\<close> of 4.2 (backend); \<open>None\<close> is success.\<close>

definition authorize :: "srv_project \<Rightarrow> js_string \<Rightarrow> role \<Rightarrow> srv_error option" where
  "authorize p u r =
     (case r of
        Member \<Rightarrow> if u \<in> members p then None else Some Forbidden
      | Owner \<Rightarrow> if u = sp_owner p then None else Some Forbidden)"

text \<open>Modelled from the spec: lookup of a project by identifier (backend).\<close>

definition find_project :: "server \<Rightarrow> js_string \<Rightarrow> srv_project option" where
  "find_project s pid = find (\<lambda>p. sp_id p = pid) (srv_projects s)"

text \<open>Modelled from the spec: lookup of a task by identifier (backend).\<close>

definition find_task :: "server \<Rightarrow> js_string \<Rightarrow> srv_task option" where
  "find_task s tid = find (\<lambda>t. st_id t = tid) (srv_tasks s)"

text \<open>
  Modelled from the spec: \<open>create(project, caller, title, description?, assigneeId?,
  dueDate?, status?)\<close> of 4.4 (backend). The new identifier and the creation time are the
  server's and passed in. An omitted status is Todo.
\<close>

definition task_create ::
  "server \<Rightarrow> js_string \<Rightarrow> js_string \<Rightarrow> js_string \<Rightarrow> js_string option \<Rightarrow> js_string option \<Rightarrow>
   js_string option \<Rightarrow> task_status option \<Rightarrow> js_string \<Rightarrow> nat \<Rightarrow> srv_error + (server \<times> srv_task)" where
  "task_create s caller pid ttl descr assigneeId dueDate stat new_id now =
     (case find_project s pid of
        None \<Rightarrow> Inl NotFound
      | Some p \<Rightarrow>
          (case authorize p caller Member of
             Some e \<Rightarrow> Inl e
           | None \<Rightarrow>
               if ttl = [] then Inl ValidationError
               else if (case assigneeId of None \<Rightarrow> False | Some a \<Rightarrow> a \<notin> members p)
               then Inl InvalidAssignee
               else
                 let t = \<lparr>st_id = new_id, st_project = pid, st_title = ttl, st_description = descr,
                          st_status = (case stat of None \<Rightarrow> Todo | Some x \<Rightarrow> x),
                          st_assignee = assigneeId, st_due_date = dueDate, st_created = now\<rparr>
                 in Inr (s\<lparr>srv_tasks := srv_tasks s @ [t]\<rparr>, t)))"

text \<open>
  Modelled from the spec: the patch of \<open>update(task, patch, caller)\<close> of 4.4 (backend); a
  field that is \<open>None\<close> is not provided and stays as it is.
\<close>

record task_patch =
  patch_title :: "js_string option"
  patch_description :: "js_string option option"
  patch_status :: "task_status option"
  patch_assignee :: "js_string option option"
  patch_due_date :: "js_string option option"

text \<open>Modelled from the spec: "applies only the provided fields" (4.3, 4.4), on one task (backend).\<close>

definition apply_patch :: "task_patch \<Rightarrow> srv_task \<Rightarrow> srv_task" where
  "apply_patch pt t = t
     \<lparr>st_title := (case patch_title pt of None \<Rightarrow> st_title t | Some v \<Rightarrow> v),
      st_description := (case patch_description pt of None \<Rightarrow> st_description t | Some v \<Rightarrow> v),
      st_status := (case patch_status pt of None \<Rightarrow> st_status t | Some v \<Rightarrow> v),
      st_assignee := (case patch_assignee pt of None \<Rightarrow> st_assignee t | Some v \<Rightarrow> v),
      st_due_date := (case patch_due_date pt of None \<Rightarrow> st_due_date t | Some v \<Rightarrow> v)\<rparr>"

text \<open>
  Modelled from the spec: \<open>update(task, patch, caller)\<close> of 4.4 (backend): the caller must
  be a member of the task's parent project, any subset of fields may change, the status
  without constraint, the assignee under the membership check of create.
\<close>

definition task_update :: "server \<Rightarrow> js_string \<Rightarrow> js_string \<Rightarrow> task_patch \<Rightarrow> srv_error + server" where
  "task_update s caller tid pt =
     (case find_task s tid of
        None \<Rightarrow> Inl NotFound
      | Some t \<Rightarrow>
          (case find_project s (st_project t) of
             None \<Rightarrow> Inl NotFound
           | Some p \<Rightarrow>
               (case authorize p caller Member of
                  Some e \<Rightarrow> Inl e
                | None \<Rightarrow>
                    if (case patch_assignee pt of Some (Some a) \<Rightarrow> a \<notin> members p | _ \<Rightarrow> False)
                    then Inl InvalidAssignee
                    else Inr (s\<lparr>srv_tasks :=
                           map (\<lambda>x. if st_id x = tid then apply_patch pt x else x) (srv_tasks s)\<rparr>))))"

text \<open>
  Modelled from the spec: \<open>delete(project, caller)\<close> of 4.3 (backend): owner only; the
  project, its tasks and its comments go in the one state change.
\<close>

definition project_delete :: "server \<Rightarrow> js_string \<Rightarrow> js_string \<Rightarrow> srv_error + server" where
  "project_delete s caller pid =
     (case find_project s pid of
        None \<Rightarrow> Inl NotFound
      | Some p \<Rightarrow>
          (case authorize p caller Owner of
             Some e \<Rightarrow> Inl e
           | None \<Rightarrow> Inr (s\<lparr>srv_projects := filter (\<lambda>q. sp_id q \<noteq> pid) (srv_projects s),
                            srv_tasks := filter (\<lambda>t. st_project t \<noteq> pid) (srv_tasks s),
                            srv_comments := filter (\<lambda>c. sc_project c \<noteq> pid) (srv_comments s)\<rparr>)))"

text \<open>
  Modelled from the spec: \<open>append(project, caller, message)\<close> of 4.5 (backend). The caller
  supplies the message only; identifier and timestamp are the server's (its clock at
  append time) and passed in.
\<close>

definition comment_append ::
  "server \<Rightarrow> js_string \<Rightarrow> js_string \<Rightarrow> js_string \<Rightarrow> js_string \<Rightarrow> nat \<Rightarrow> srv_error + server" where
  "comment_append s caller pid msg new_id now =
     (case find_project s pid of
        None \<Rightarrow> Inl NotFound
      | Some p \<Rightarrow>
          (case authorize p caller Member of
             Some e \<Rightarrow> Inl e
           | None \<Rightarrow>
               if list_all is_js_whitespace msg then Inl ValidationError
               else Inr (s\<lparr>srv_comments := srv_comments s @
                      [\<lparr>sc_id = new_id, sc_project = pid, sc_author = caller,
                        sc_message = msg, sc_timestamp = now\<rparr>]\<rparr>)))"

text \<open>
  Modelled from the spec: the JSON boundary of section 6 for \<open>PUT /tasks/{id}\<close> (backend).
  The status travels as the client's literals; a key that is absent is a field not
  provided; a status that is none of the three is a validation failure.
\<close>

definition status_literal :: "task_status \<Rightarrow> js_string" where
  "status_literal x = (case x of Todo \<Rightarrow> js ''To-Do'' | InProgress \<Rightarrow> js ''In Progress'' | Done \<Rightarrow> js ''Done'')"

text \<open>Modelled from the spec: reading a status off the wire, the inverse of \<open>status_literal\<close> (backend).\<close>

definition status_of_literal :: "js_string \<Rightarrow> task_status option" where
  "status_of_literal v =
     (if v = js ''To-Do'' then Some Todo
      else if v = js ''In Progress'' then Some InProgress
      else if v = js ''Done'' then Some Done
      else None)"

text \<open>Modelled from the spec: a string-valued key of a JSON body, if it is there (backend).\<close>

definition string_field :: "(string \<times> json) list \<Rightarrow> string \<Rightarrow> js_string option" where
  "string_field body k = (case map_of body k of Some (JStr v) \<Rightarrow> Some v | _ \<Rightarrow> None)"

text \<open>Modelled from the spec: an optional key of a JSON body: absent, null, or a string (backend).\<close>

definition nullable_field :: "(string \<times> json) list \<Rightarrow> string \<Rightarrow> js_string option option" where
  "nullable_field body k =
     (case map_of body k of Some (JStr v) \<Rightarrow> Some (Some v) | Some JNull \<Rightarrow> Some None | _ \<Rightarrow> None)"

text \<open>Modelled from the spec: the patch a \<open>PUT /tasks/{id}\<close> body stands for (backend).\<close>

definition decode_task_patch :: "(string \<times> json) list \<Rightarrow> srv_error + task_patch" where
  "decode_task_patch body =
     (let base = \<lparr>patch_title = string_field body ''title'',
                  patch_description = nullable_field body ''description'',
                  patch_status = None,
                  patch_assignee = nullable_field body ''assignee_id'',
                  patch_due_date = nullable_field body ''due_date''\<rparr>
      in case map_of body ''status'' of
           None \<Rightarrow> Inr base
         | Some (JStr v) \<Rightarrow>
             (case status_of_literal v of
                None \<Rightarrow> Inl ValidationError
              | Some x \<Rightarrow> Inr (base\<lparr>patch_status := Some x\<rparr>))
         | Some _ \<Rightarrow> Inl ValidationError)"

text \<open>Modelled from the spec: \<open>PUT /tasks/{id}\<close> of section 6, decoding then \<open>update\<close> (backend).\<close>

definition put_task :: "server \<Rightarrow> js_string \<Rightarrow> js_string \<Rightarrow> (string \<times> json) list \<Rightarrow> srv_error + server" where
  "put_task s caller tid body =
     (case decode_task_patch body of
        Inl e \<Rightarrow> Inl e
      | Inr pt \<Rightarrow> task_update s caller tid pt)"

section \<open>Sample data\<close>

text \<open>Three projects with one member each, as the client receives them.\<close>

definition project_A :: project_data where
  "project_A = \<lparr>project_id = js ''A'', project_name = js ''Launch'',
     member_details = Some [\<lparr>member_id = js ''u1'', member_name = js ''Alice''\<rparr>]\<rparr>"

definition project_B :: project_data where
  "project_B = \<lparr>project_id = js ''B'', project_name = js ''Billing'',
     member_details = Some [\<lparr>member_id = js ''u2'', member_name = js ''Bob''\<rparr>]\<rparr>"

definition project_C :: project_data where
  "project_C = \<lparr>project_id = js ''C'', project_name = js ''Careers'',
     member_details = Some [\<lparr>member_id = js ''u3'', member_name = js ''Carol''\<rparr>]\<rparr>"

text \<open>Project A is loaded, the create-task dialog is open and a title is typed.\<close>

definition dialog_in_A :: "detail_event list" where
  "dialog_in_A = [FetchSettled (Inr (project_A, [], [])), ShowCreateTask True,
     TitleInput (js ''x'')]"

text \<open>Then Alice, the member the selector of project A offers, is selected.\<close>

definition select_in_A :: "detail_event list" where
  "select_in_A = dialog_in_A @ [AssigneeSelected (js ''u1'')]"

text \<open>
  Then the location hash changes to \<^verbatim>\<open>#/projects/B\<close>; AppContent renders the mounted
  ProjectDetail with the new \<open>projectId\<close>, and B's data arrives.
\<close>

definition switch_to_B :: "detail_event list" where
  "switch_to_B = select_in_A @ [ProjectIdProp (js ''B''), FetchSettled (Inr (project_B, [], []))]"

text \<open>The dialog of project A is open and only a title was typed.\<close>

definition title_only :: "detail_event list" where
  "title_only = [FetchSettled (Inr (project_A, [], [])), ShowCreateTask True,
     TitleInput (js ''Write spec'')]"

definition board_task :: "string \<Rightarrow> json \<Rightarrow> task" where
  "board_task i s = \<lparr>task_id = js i, title = js ''t'', description = JNull, status = s,
     assignee_name = JNull, due_date = JNull\<rparr>"

definition board_state :: detail where
  "board_state = (detail_init (js ''A''))\<lparr>tasks :=
     [board_task ''1'' (JStr (js ''Done'')), board_task ''2'' (JStr (js ''To-Do'')),
      board_task ''3'' JNull, board_task ''4'' (JStr (js ''Done'')),
      board_task ''5'' (JStr (js ''Blocked''))]\<rparr>"

definition user_alice :: user_data where
  "user_alice = \<lparr>user_id = js ''u1'', user_name = js ''Alice'', user_email = js ''alice@x.com''\<rparr>"

text \<open>
  The dashboard shows A, B and C. The deletes of A and of B are both started in that
  render; A's settles first, B's second.
\<close>

definition two_deletes :: "dashboard_event list" where
  "two_deletes = [DeleteSettled [project_A, project_B, project_C] project_A (Inr ()),
     DeleteSettled [project_A, project_B, project_C] project_B (Inr ())]"

text \<open>A page load with a stored token, a logout, and a login as the same user.\<close>

definition session_events :: "auth_event list" where
  "session_events = [FetchUserSettled (Inr user_alice), LogoutClicked,
     LoginSettled (Inr (js ''tok2'', user_alice))]"

text \<open>The service holding project A (owner u1, member u2) with one task and one comment.\<close>

definition task_t1 :: srv_task where
  "task_t1 = \<lparr>st_id = js ''t1'', st_project = js ''A'', st_title = js ''Write spec'',
     st_description = Some (js ''first draft''), st_status = Todo, st_assignee = Some (js ''u2''),
     st_due_date = None, st_created = 1\<rparr>"

definition sample_server :: server where
  "sample_server = \<lparr>srv_projects =
       [\<lparr>sp_id = js ''A'', sp_name = js ''Launch'', sp_owner = js ''u1'', sp_members = [js ''u2'']\<rparr>,
        \<lparr>sp_id = js ''B'', sp_name = js ''Billing'', sp_owner = js ''u2'', sp_members = []\<rparr>],
     srv_tasks = [task_t1],
     srv_comments = [\<lparr>sc_id = js ''c1'', sc_project = js ''A'', sc_author = js ''u1'',
       sc_message = js ''hello'', sc_timestamp = 2\<rparr>]\<rparr>"

section \<open>Auxiliary facts\<close>

lemma strict_eq_JStr: "strict_eq v (JStr s) \<longleftrightarrow> v = JStr s"
  by (cases v) auto

lemma getTasksByStatus_filter:
  "getTasksByStatus st s = filter (\<lambda>t. status t = JStr s) (tasks st)"
  by (simp add: getTasksByStatus_def strict_eq_JStr)

lemma columns_mset:
  "mset (concat (map (getTasksByStatus st) board_columns)) =
     mset (filter (\<lambda>t. status t \<in> JStr ` set board_columns) (tasks st))"
proof -
  have "mset (concat (map (\<lambda>s. filter (\<lambda>t. status t = JStr s) ts) board_columns)) =
     mset (filter (\<lambda>t. status t \<in> JStr ` set board_columns) ts)" for ts :: "task list"
    by (induction ts) (auto simp: board_columns_def js_def)
  moreover have "getTasksByStatus st = (\<lambda>s. filter (\<lambda>t. status t = JStr s) (tasks st))"
    by (rule ext) (rule getTasksByStatus_filter)
  ultimately show ?thesis by simp
qed

lemma columns_disjoint:
  "a \<noteq> b \<Longrightarrow> set (getTasksByStatus st a) \<inter> set (getTasksByStatus st b) = {}"
  by (auto simp: getTasksByStatus_filter)

lemma header_mount: "header_matches_token (fst (mount ls))"
  by (cases ls) (auto simp: mount_def token_effect_def header_matches_token_def)

lemma header_step:
  assumes "header_matches_token st" and "issued_token e \<noteq> Some []"
  shows "header_matches_token (auth_step st e)"
proof (cases e)
  case (LoginSettled r)
  with assms show ?thesis
    by (auto simp: login_settled_def token_effect_def header_matches_token_def Let_def
        split: sum.splits prod.splits option.splits)
next
  case (RegisterSettled r)
  with assms show ?thesis
    by (auto simp: login_settled_def token_effect_def header_matches_token_def Let_def
        split: sum.splits prod.splits option.splits)
next
  case LogoutClicked
  then show ?thesis
    by (simp add: logout_clicked_def logout_def token_effect_def header_matches_token_def)
next
  case (FetchUserSettled r)
  with assms show ?thesis
    by (auto simp: fetchUser_settled_def logout_def header_matches_token_def split: sum.splits)
qed

lemma header_foldl:
  "header_matches_token st \<Longrightarrow> \<forall>e \<in> set evs. issued_token e \<noteq> Some [] \<Longrightarrow>
   header_matches_token (foldl auth_step st evs)"
  by (induction evs arbitrary: st) (simp_all add: header_step)

lemma no_header_step:
  "authorization st = None \<Longrightarrow> token st = None \<Longrightarrow> issued_token e = None \<Longrightarrow>
   authorization (auth_step st e) = None \<and> token (auth_step st e) = None"
proof (cases e)
  case (LoginSettled r)
  assume "authorization st = None" "token st = None" "issued_token e = None"
  with LoginSettled show ?thesis
    by (cases r) (auto simp: login_settled_def)
next
  case (RegisterSettled r)
  assume "authorization st = None" "token st = None" "issued_token e = None"
  with RegisterSettled show ?thesis
    by (cases r) (auto simp: login_settled_def)
next
  case LogoutClicked
  assume "authorization st = None" "token st = None"
  with LogoutClicked show ?thesis
    by (simp add: logout_clicked_def logout_def)
next
  case (FetchUserSettled r)
  assume "authorization st = None" "token st = None"
  with FetchUserSettled show ?thesis
    by (cases r) (simp_all add: fetchUser_settled_def logout_def)
qed

lemma no_header_foldl:
  "authorization st = None \<Longrightarrow> token st = None \<Longrightarrow> \<forall>e \<in> set evs. issued_token e = None \<Longrightarrow>
   authorization (foldl auth_step st evs) = None"
  by (induction evs arbitrary: st) (simp_all add: no_header_step)

lemma logout_clicked_fields:
  "user (logout_clicked st) = None \<and> token (logout_clicked st) = None
   \<and> stored_token (logout_clicked st) = None \<and> authorization (logout_clicked st) = None"
  by (simp add: logout_clicked_def logout_def token_effect_def)

lemma task_create_invalid_assignee:
  "\<forall>p. find_project s pid = Some p \<longrightarrow> a \<notin> members p \<Longrightarrow>
   isl (task_create s caller pid ttl descr (Some a) due stat nid now)"
  by (auto simp: task_create_def Let_def split: option.splits)

lemma task_update_invalid_assignee:
  "find_task s tid = Some x \<Longrightarrow> \<forall>p. find_project s (st_project x) = Some p \<longrightarrow> a \<notin> members p \<Longrightarrow>
   patch_assignee pt = Some (Some a) \<Longrightarrow> isl (task_update s caller tid pt)"
  by (auto simp: task_update_def split: option.splits)

lemma status_of_literal_inv: "status_of_literal (status_literal x) = Some x"
  by (cases x) (simp_all add: status_of_literal_def status_literal_def js_def)

lemma decode_status_only:
  "decode_task_patch [(''status'', JStr v)] =
     (case status_of_literal v of
        None \<Rightarrow> Inl ValidationError
      | Some x \<Rightarrow> Inr \<lparr>patch_title = None, patch_description = None, patch_status = Some x,
                       patch_assignee = None, patch_due_date = None\<rparr>)"
  by (simp add: decode_task_patch_def string_field_def nullable_field_def split: option.splits)

lemma apply_status_only:
  "apply_patch \<lparr>patch_title = None, patch_description = None, patch_status = Some x,
                 patch_assignee = None, patch_due_date = None\<rparr> t = t\<lparr>st_status := x\<rparr>"
  by (simp add: apply_patch_def)

lemma put_status_only:
  "put_task s caller tid [(''status'', JStr v)] = Inr s' \<Longrightarrow>
   \<exists>x. status_of_literal v = Some x \<and>
     s' = s\<lparr>srv_tasks := map (\<lambda>t. if st_id t = tid then t\<lparr>st_status := x\<rparr> else t) (srv_tasks s)\<rparr>"
  by (auto simp: put_task_def decode_status_only task_update_def apply_status_only
      split: option.splits if_splits)

lemma put_status_succeeds:
  assumes "find_task s tid = Some x" "find_project s (st_project x) = Some p" "caller \<in> members p"
  shows "put_task s caller tid [(''status'', JStr (status_literal s2))] =
     Inr (s\<lparr>srv_tasks := map (\<lambda>t. if st_id t = tid then t\<lparr>st_status := s2\<rparr> else t) (srv_tasks s)\<rparr>)"
  using assms
  by (simp add: put_task_def decode_status_only status_of_literal_inv task_update_def
      authorize_def apply_status_only)

lemma find_task_after:
  "find_task (s\<lparr>srv_tasks := map (\<lambda>t. if st_id t = tid then t\<lparr>st_status := x\<rparr> else t) (srv_tasks s)\<rparr>) tid
     = map_option (\<lambda>t. t\<lparr>st_status := x\<rparr>) (find_task s tid)"
proof -
  have "find (\<lambda>t. st_id t = tid) (map (\<lambda>t. if st_id t = tid then t\<lparr>st_status := x\<rparr> else t) ts)
      = map_option (\<lambda>t. t\<lparr>st_status := x\<rparr>) (find (\<lambda>t. st_id t = tid) ts)" for ts
    by (induction ts) auto
  then show ?thesis by (simp add: find_task_def)
qed

lemma others_kept:
  "filter (\<lambda>u. st_id u \<noteq> tid) (map (\<lambda>t. if st_id t = tid then t\<lparr>st_status := z\<rparr> else t) ts)
     = filter (\<lambda>u. st_id u \<noteq> tid) ts"
  by (induction ts) auto

lemma filter_distinct_remove1:
  "distinct (map f xs) \<Longrightarrow> p \<in> set xs \<Longrightarrow> filter (\<lambda>q. f q \<noteq> f p) xs = remove1 p xs"
proof (induction xs)
  case Nil
  then show ?case by simp
next
  case (Cons x xs)
  show ?case
  proof (cases "x = p")
    case True
    from Cons.prems True have "f p \<notin> f ` set xs" by simp
    then have "\<forall>q \<in> set xs. f q \<noteq> f p" by (metis imageI)
    then have "filter (\<lambda>q. f q \<noteq> f p) xs = xs" by (simp add: filter_id_conv)
    with True show ?thesis by simp
  next
    case False
    with Cons.prems have "p \<in> set xs" "f x \<noteq> f p" by auto
    with Cons False show ?thesis by simp
  qed
qed

lemma find_filter_none: "find (\<lambda>q. f q = k) (filter (\<lambda>q. f q \<noteq> k) xs) = None"
  by (simp add: find_None_iff)

lemma trim_empty_iff: "trim s = [] \<longleftrightarrow> list_all is_js_whitespace s"
proof
  assume "trim s = []"
  then have "dropWhile is_js_whitespace (rev (dropWhile is_js_whitespace s)) = []"
    by (simp add: trim_def)
  then have a: "\<forall>x \<in> set (dropWhile is_js_whitespace s). is_js_whitespace x"
    by (simp add: dropWhile_eq_Nil_conv)
  have "dropWhile is_js_whitespace s = []"
  proof (cases "dropWhile is_js_whitespace s")
    case Nil
    then show ?thesis .
  next
    case (Cons y ys)
    then have "\<not> is_js_whitespace y" using hd_dropWhile [of is_js_whitespace s] by simp
    moreover have "is_js_whitespace y" using a Cons by simp
    ultimately show ?thesis by simp
  qed
  then show "list_all is_js_whitespace s"
    by (simp add: dropWhile_eq_Nil_conv list_all_iff)
next
  assume "list_all is_js_whitespace s"
  then have "\<forall>x \<in> set s. is_js_whitespace x"
    by (simp add: list_all_iff)
  then show "trim s = []" by (auto simp: trim_def dest: set_dropWhileD)
qed

lemma delete_settled_lists:
  "fst (ProjectCard_handleDelete_settled captured current p (Inr u)) =
     filter (\<lambda>q. project_id q \<noteq> project_id p) captured
   \<and> fst (ProjectCard_handleDelete_settled captured current p (Inl e)) = current"
  by (simp add: ProjectCard_handleDelete_settled_def ProjectDashboard_handleDelete_def)

lemma delete_settled_in_step:
  "distinct (map project_id ps) \<Longrightarrow> p \<in> set ps \<Longrightarrow>
   fst (ProjectCard_handleDelete_settled ps ps p (Inr u)) = remove1 p ps"
  by (simp add: delete_settled_lists filter_distinct_remove1)

lemma project_delete_cascade:
  "project_delete s caller pid = Inr s' \<Longrightarrow>
   find_project s' pid = None
   \<and> srv_projects s' = filter (\<lambda>q. sp_id q \<noteq> pid) (srv_projects s)
   \<and> srv_tasks s' = filter (\<lambda>t. st_project t \<noteq> pid) (srv_tasks s)
   \<and> srv_comments s' = filter (\<lambda>c. sc_project c \<noteq> pid) (srv_comments s)"
  by (auto simp: project_delete_def find_project_def find_filter_none split: option.splits)

section \<open>The claims\<close>

text \<open>
  C1 on the code. The assignee selector is built from the \<open>member_details\<close> of the
  project that is loaded, but the selection is held in \<open>newTask\<close>, which nothing resets
  when the mounted component is rendered with another \<open>projectId\<close>. Alice is selected
  while she is what the selector of project A offers. After the hash change the form
  submits to project B with Alice as assignee, both before B's data has arrived and after
  it, when the selector offers Bob only. So a creation request can carry an assignee from
  outside the member list of its project.
\<close>

theorem create_task_stale_assignee:
  "js ''u1'' \<in> set (assignee_options (detail_run (js ''A'') dialog_in_A))
   \<and> handleCreateTask Some (detail_run (js ''A'') (select_in_A @ [ProjectIdProp (js ''B'')])) =
       [Request POST (ProjectTasks (js ''B''))
         [(''title'', JStr (js ''x'')), (''description'', JStr []), (''assignee_id'', JStr (js ''u1'')),
          (''due_date'', JNull), (''status'', JStr (js ''To-Do''))]]
   \<and> handleCreateTask Some (detail_run (js ''A'') switch_to_B) =
       [Request POST (ProjectTasks (js ''B''))
         [(''title'', JStr (js ''x'')), (''description'', JStr []), (''assignee_id'', JStr (js ''u1'')),
          (''due_date'', JNull), (''status'', JStr (js ''To-Do''))]]
   \<and> map_option project_id (project (detail_run (js ''A'') switch_to_B)) = Some (js ''B'')
   \<and> assignee_options (detail_run (js ''A'') switch_to_B) = [js ''u2'']
   \<and> js ''u1'' \<notin> set (assignee_options (detail_run (js ''A'') switch_to_B))"
  by (simp add: detail_run_def switch_to_B_def select_in_A_def dialog_in_A_def project_A_def
      project_B_def detail_init_def blank_task_def form_visible_def assignee_options_def
      handleCreateTask_def create_task_body_def js_def)

text \<open>
  C2. The status selector of a task offers To-Do, In Progress and Done whatever the task's
  status is, and selecting one sends \<^verbatim>\<open>PUT /tasks/{id}\<close> with exactly that status, from the
  project board and from My Tasks alike. On the service this request, made by a member of
  the parent project, takes the task from any status \<open>s1\<close> to any status \<open>s2\<close>.
\<close>

theorem status_transitions_total:
  "status_options t = map status_literal [Todo, InProgress, Done]
   \<and> status_literal s2 \<in> set (status_options t)
   \<and> handleUpdateTaskStatus tid (status_literal s2) =
       [Request PUT (TaskById tid) [(''status'', JStr (status_literal s2))]]
   \<and> handleStatusChange tid (status_literal s2) =
       [Request PUT (TaskById tid) [(''status'', JStr (status_literal s2))]]
   \<and> (find_task s tid = Some x \<and> st_status x = s1 \<and> find_project s (st_project x) = Some p
        \<and> caller \<in> members p \<longrightarrow>
        (\<exists>s'. put_task s caller tid [(''status'', JStr (status_literal s2))] = Inr s'
              \<and> find_task s' tid = Some (x\<lparr>st_status := s2\<rparr>)))"
proof (intro conjI)
  show "status_options t = map status_literal [Todo, InProgress, Done]"
    by (simp add: status_options_def status_literal_def)
  then show "status_literal s2 \<in> set (status_options t)"
    by (cases s2) simp_all
  show "find_task s tid = Some x \<and> st_status x = s1 \<and> find_project s (st_project x) = Some p
        \<and> caller \<in> members p \<longrightarrow>
        (\<exists>s'. put_task s caller tid [(''status'', JStr (status_literal s2))] = Inr s'
              \<and> find_task s' tid = Some (x\<lparr>st_status := s2\<rparr>))"
    by (auto simp: put_status_succeeds find_task_after)
qed (simp_all add: handleUpdateTaskStatus_def handleStatusChange_def)

text \<open>C2 on the sample service: member u2 moves task t1 from Todo to Done.\<close>

theorem status_transitions_total_witness:
  "find_task sample_server (js ''t1'') = Some task_t1 \<and> st_status task_t1 = Todo
   \<and> find_project sample_server (st_project task_t1) = Some (hd (srv_projects sample_server))
   \<and> js ''u2'' \<in> members (hd (srv_projects sample_server))
   \<and> (\<exists>s'. put_task sample_server (js ''u2'') (js ''t1'') [(''status'', JStr (js ''Done''))] = Inr s'
          \<and> find_task s' (js ''t1'') = Some (task_t1\<lparr>st_status := Done\<rparr>))"
  using status_transitions_total [where s = sample_server and tid = "js ''t1''" and x = task_t1
      and ?s1.0 = Todo and ?s2.0 = Done and caller = "js ''u2''" and p = "hd (srv_projects sample_server)"]
  by (simp add: sample_server_def task_t1_def find_task_def find_project_def members_def
      status_literal_def js_def)

text \<open>
  C3, as the code has it. The form starts blank and is blank again after a creation. The
  request for a blank form with only a title typed carries that title, an empty
  description, the empty string as \<open>assignee_id\<close>, null as \<open>due_date\<close> and the status
  \<open>'To-Do'\<close>. On the service, a creation by a member with every optional field omitted
  appends a task with the given title, status Todo, no assignee and no due date.
\<close>

theorem default_creation_request:
  "newTask (detail_init pid) = blank_task
   \<and> newTask (fst (handleCreateTask_settled submitted st (Inr u))) = blank_task
   \<and> (form_visible st \<and> newTask st = blank_task \<longrightarrow>
        handleCreateTask toISO (detail_step st (TitleInput ttl)) =
          [Request POST (ProjectTasks (projectId st))
            [(''title'', JStr ttl), (''description'', JStr []), (''assignee_id'', JStr []),
             (''due_date'', JNull), (''status'', JStr (js ''To-Do''))]])
   \<and> (find_project s pid = Some p \<and> caller \<in> members p \<and> ttl \<noteq> [] \<longrightarrow>
        (\<exists>s' t. task_create s caller pid ttl None None None None nid now = Inr (s', t)
           \<and> srv_tasks s' = srv_tasks s @ [t]
           \<and> st_title t = ttl \<and> st_status t = Todo \<and> st_assignee t = None \<and> st_due_date t = None))"
  by (auto simp: detail_init_def handleCreateTask_settled_def handleCreateTask_def
      create_task_body_def blank_task_def task_create_def authorize_def Let_def)

text \<open>
  C3 as stated fails: in the default request \<open>assignee_id\<close> is the empty string, not null.
\<close>

theorem default_creation_request_counterexample:
  "handleCreateTask Some (detail_run (js ''A'') title_only) =
     [Request POST (ProjectTasks (js ''A''))
       [(''title'', JStr (js ''Write spec'')), (''description'', JStr []), (''assignee_id'', JStr []),
        (''due_date'', JNull), (''status'', JStr (js ''To-Do''))]]
   \<and> map_of [(''title'', JStr (js ''Write spec'')), (''description'', JStr []), (''assignee_id'', JStr []),
        (''due_date'', JNull), (''status'', JStr (js ''To-Do''))] ''assignee_id'' \<noteq> Some JNull"
  by (simp add: detail_run_def title_only_def project_A_def detail_init_def blank_task_def
      form_visible_def handleCreateTask_def create_task_body_def js_def)

text \<open>C3 (amended) on the dialog of project A and on the sample service.\<close>

theorem default_creation_request_witness:
  "form_visible (detail_run (js ''A'') [FetchSettled (Inr (project_A, [], [])), ShowCreateTask True])
   \<and> newTask (detail_run (js ''A'') [FetchSettled (Inr (project_A, [], [])), ShowCreateTask True]) = blank_task
   \<and> handleCreateTask Some (detail_run (js ''A'') title_only) =
       [Request POST (ProjectTasks (js ''A''))
         [(''title'', JStr (js ''Write spec'')), (''description'', JStr []), (''assignee_id'', JStr []),
          (''due_date'', JNull), (''status'', JStr (js ''To-Do''))]]
   \<and> find_project sample_server (js ''A'') = Some (hd (srv_projects sample_server))
   \<and> js ''u2'' \<in> members (hd (srv_projects sample_server)) \<and> js ''Write spec'' \<noteq> []
   \<and> (\<exists>s' t. task_create sample_server (js ''u2'') (js ''A'') (js ''Write spec'') None None None None
          (js ''t2'') 7 = Inr (s', t)
        \<and> srv_tasks s' = srv_tasks sample_server @ [t]
        \<and> st_title t = js ''Write spec'' \<and> st_status t = Todo \<and> st_assignee t = None
        \<and> st_due_date t = None)"
  using default_creation_request [where st = "detail_run (js ''A'') [FetchSettled (Inr (project_A, [], [])), ShowCreateTask True]"
      and ttl = "js ''Write spec''" and toISO = Some and s = sample_server and pid = "js ''A''"
      and p = "hd (srv_projects sample_server)" and caller = "js ''u2''" and nid = "js ''t2''" and now = 7]
  by (simp add: detail_run_def title_only_def project_A_def detail_init_def form_visible_def
      sample_server_def find_project_def members_def js_def)

text \<open>
  C4. Both status handlers send a body whose only key is \<open>status\<close>. On the service such a
  request, when it succeeds, leaves the task's title, description, assignee, due date and
  project as they were, and every other task, the projects and the comments as well.
\<close>

theorem status_update_frame:
  "handleUpdateTaskStatus tid v = [Request PUT (TaskById tid) [(''status'', JStr v)]]
   \<and> handleStatusChange tid v = [Request PUT (TaskById tid) [(''status'', JStr v)]]
   \<and> (\<forall>m r body. Request m r body \<in> set (handleUpdateTaskStatus tid v @ handleStatusChange tid v)
        \<longrightarrow> map fst body = [''status''])
   \<and> (put_task s caller tid [(''status'', JStr v)] = Inr s' \<and> find_task s tid = Some x \<longrightarrow>
        (\<exists>y. find_task s' tid = Some y
           \<and> st_title y = st_title x \<and> st_description y = st_description x
           \<and> st_assignee y = st_assignee x \<and> st_due_date y = st_due_date x
           \<and> st_project y = st_project x)
        \<and> srv_projects s' = srv_projects s \<and> srv_comments s' = srv_comments s
        \<and> filter (\<lambda>u. st_id u \<noteq> tid) (srv_tasks s') = filter (\<lambda>u. st_id u \<noteq> tid) (srv_tasks s))"
proof (intro conjI impI)
  assume a: "put_task s caller tid [(''status'', JStr v)] = Inr s' \<and> find_task s tid = Some x"
  then obtain z where s': "s' = s\<lparr>srv_tasks := map (\<lambda>t. if st_id t = tid then t\<lparr>st_status := z\<rparr> else t) (srv_tasks s)\<rparr>"
    using put_status_only by blast
  show "\<exists>y. find_task s' tid = Some y
           \<and> st_title y = st_title x \<and> st_description y = st_description x
           \<and> st_assignee y = st_assignee x \<and> st_due_date y = st_due_date x
           \<and> st_project y = st_project x"
    using a by (simp add: s' find_task_after)
  show "srv_projects s' = srv_projects s" "srv_comments s' = srv_comments s"
    by (simp_all add: s')
  show "filter (\<lambda>u. st_id u \<noteq> tid) (srv_tasks s') = filter (\<lambda>u. st_id u \<noteq> tid) (srv_tasks s)"
    by (simp add: s' others_kept)
qed (auto simp: handleUpdateTaskStatus_def handleStatusChange_def)

text \<open>C4 on the sample service: the owner sets task t1 to In Progress.\<close>

theorem status_update_frame_witness:
  "put_task sample_server (js ''u1'') (js ''t1'') [(''status'', JStr (js ''In Progress''))] =
     Inr (sample_server\<lparr>srv_tasks := [task_t1\<lparr>st_status := InProgress\<rparr>]\<rparr>)
   \<and> find_task sample_server (js ''t1'') = Some task_t1
   \<and> (\<exists>y. find_task (sample_server\<lparr>srv_tasks := [task_t1\<lparr>st_status := InProgress\<rparr>]\<rparr>) (js ''t1'') = Some y
        \<and> st_title y = st_title task_t1 \<and> st_description y = st_description task_t1
        \<and> st_assignee y = st_assignee task_t1)"
proof -
  have put: "put_task sample_server (js ''u1'') (js ''t1'') [(''status'', JStr (js ''In Progress''))] =
     Inr (sample_server\<lparr>srv_tasks := [task_t1\<lparr>st_status := InProgress\<rparr>]\<rparr>)"
    by (simp add: put_task_def decode_task_patch_def string_field_def nullable_field_def
        status_of_literal_def task_update_def find_task_def find_project_def authorize_def
        members_def apply_patch_def sample_server_def task_t1_def js_def)
  have fnd: "find_task sample_server (js ''t1'') = Some task_t1"
    by (simp add: find_task_def sample_server_def task_t1_def js_def)
  from status_update_frame [where s = sample_server and caller = "js ''u1''" and tid = "js ''t1''"
        and v = "js ''In Progress''" and s' = "sample_server\<lparr>srv_tasks := [task_t1\<lparr>st_status := InProgress\<rparr>]\<rparr>"
        and x = task_t1] put fnd
  have "\<exists>y. find_task (sample_server\<lparr>srv_tasks := [task_t1\<lparr>st_status := InProgress\<rparr>]\<rparr>) (js ''t1'') = Some y
        \<and> st_title y = st_title task_t1 \<and> st_description y = st_description task_t1
        \<and> st_assignee y = st_assignee task_t1"
    by blast
  with put fnd show ?thesis by blast
qed

text \<open>
  C5 on the code. A settled delete replaces the list by the filtered list of the render
  in which it was started, not by the filtered current list. With A, B and C shown and
  the deletes of A and of B both started in that render, the first to settle leaves B and
  C, and the second leaves A and C: the project deleted first is back in the list. So a
  successful delete does not always remove exactly its project and keep the others.
\<close>

theorem project_delete_stale_list:
  "dashboard_step [project_A, project_B, project_C]
       (DeleteSettled [project_A, project_B, project_C] project_A (Inr ())) = [project_B, project_C]
   \<and> foldl dashboard_step [project_A, project_B, project_C] two_deletes = [project_A, project_C]
   \<and> project_A \<in> set (foldl dashboard_step [project_A, project_B, project_C] two_deletes)"
  by (simp add: two_deletes_def ProjectCard_handleDelete_settled_def
      ProjectDashboard_handleDelete_def project_A_def project_B_def project_C_def js_def)

text \<open>
  C6. handleAddComment writes no state before its call settles. When the comment consists
  of white space only (or is empty) it sends nothing; otherwise it sends
  \<^verbatim>\<open>POST /projects/{id}/comments\<close> with the comment as typed.
\<close>

theorem blank_comment_rejected:
  "fst (handleAddComment st) = st
   \<and> (list_all is_js_whitespace (newComment st) \<longrightarrow> handleAddComment st = (st, []))
   \<and> (\<not> list_all is_js_whitespace (newComment st) \<longrightarrow>
        handleAddComment st =
          (st, [Request POST (ProjectComments (projectId st)) [(''message'', JStr (newComment st))]]))"
  by (simp add: handleAddComment_def trim_empty_iff)

text \<open>C6 on a comment of space, tab, no-break space and ideographic space, and on \<open>' hi '\<close>.\<close>

theorem blank_comment_rejected_witness:
  "list_all is_js_whitespace [0x20, 0x09, 0xA0, 0x3000]
   \<and> handleAddComment ((detail_init (js ''A''))\<lparr>newComment := [0x20, 0x09, 0xA0, 0x3000]\<rparr>) =
       ((detail_init (js ''A''))\<lparr>newComment := [0x20, 0x09, 0xA0, 0x3000]\<rparr>, [])
   \<and> \<not> list_all is_js_whitespace (js '' hi '')
   \<and> handleAddComment ((detail_init (js ''A''))\<lparr>newComment := js '' hi ''\<rparr>) =
       ((detail_init (js ''A''))\<lparr>newComment := js '' hi ''\<rparr>,
        [Request POST (ProjectComments (js ''A'')) [(''message'', JStr (js '' hi ''))]])"
  using blank_comment_rejected [of "(detail_init (js ''A''))\<lparr>newComment := [0x20, 0x09, 0xA0, 0x3000]\<rparr>"]
    blank_comment_rejected [of "(detail_init (js ''A''))\<lparr>newComment := js '' hi ''\<rparr>"]
  by (simp add: is_js_whitespace_def detail_init_def js_def)

text \<open>
  C7. From any localStorage content at page load, and through any sequence of settled
  logins, registrations, fetchUser calls and logouts in which every issued access token is
  a non-empty string, the default Authorization header is \<open>Bearer <token>\<close> when the
  state \<open>token\<close> is truthy and absent otherwise. Logout removes the stored token, sets
  \<open>user\<close> and \<open>token\<close> to null and deletes the header; until a login or registration
  succeeds again no request carries an Authorization header, whatever else settles.
\<close>

theorem auth_header_invariant:
  "((\<forall>e \<in> set evs. issued_token e \<noteq> Some []) \<longrightarrow> header_matches_token (auth_run ls evs))
   \<and> logout st = st\<lparr>stored_token := None, token := None, user := None, authorization := None\<rparr>
   \<and> user (logout_clicked st) = None \<and> token (logout_clicked st) = None
   \<and> stored_token (logout_clicked st) = None \<and> authorization (logout_clicked st) = None
   \<and> ((\<forall>e \<in> set later. issued_token e = None) \<longrightarrow>
        snd (axios_send (foldl auth_step (logout_clicked st) later) call) = None)"
  using header_foldl [OF header_mount, of evs ls] logout_clicked_fields [of st]
    no_header_foldl [of "logout_clicked st" later]
  by (simp add: auth_run_def axios_send_def logout_def)

text \<open>C7 on a session: page load with a stored token, logout, login with a new token.\<close>

theorem auth_header_invariant_witness:
  "header_matches_token (auth_run (Some (js ''tok1'')) session_events)
   \<and> authorization (auth_run (Some (js ''tok1'')) session_events) = Some (js ''Bearer tok2'')
   \<and> issued_token (FetchUserSettled (Inr user_alice)) = None
   \<and> snd (axios_send (foldl auth_step (logout_clicked (fst (mount (Some (js ''tok1'')))))
            [FetchUserSettled (Inr user_alice)]) (Request GET Projects [])) = None"
  using auth_header_invariant [of session_events "Some (js ''tok1'')" "fst (mount (Some (js ''tok1'')))"
      "[FetchUserSettled (Inr user_alice)]" "Request GET Projects []"]
  by (simp add: session_events_def auth_run_def mount_def token_effect_def login_settled_def
      logout_clicked_def logout_def fetchUser_settled_def bearer_def js_def axios_send_def)

text \<open>
  C8. When \<^verbatim>\<open>GET /auth/me\<close> is rejected, for whatever reason, fetchUser's catch branch
  calls logout: stored token, \<open>user\<close>, \<open>token\<close> and the Authorization header are cleared.
  Loading ends on either outcome of the call. With no stored token the call is not made
  at all and the component is in the logged-out state, not loading, after mounting.
\<close>

theorem fetchUser_failure_logs_out:
  "fetchUser_settled st (Inl e) =
     \<lparr>user = None, token = None, loading = False, stored_token = None, authorization = None\<rparr>
   \<and> fetchUser_settled st (Inl e) = (logout st)\<lparr>loading := False\<rparr>
   \<and> auth_step st (FetchUserSettled (Inl e)) = (logout st)\<lparr>loading := False\<rparr>
   \<and> loading (fetchUser_settled st r) = False
   \<and> mount None =
       (\<lparr>user = None, token = None, loading = False, stored_token = None, authorization = None\<rparr>, [])"
  by (cases r) (simp_all add: fetchUser_settled_def logout_def mount_def token_effect_def)

text \<open>
  C9. A request of handleAddComment has the single key \<open>message\<close>; it carries no timestamp.
  On the service the appended comment gets the server's clock value at append time.
\<close>

theorem comment_timestamp_from_server:
  "(snd (handleAddComment st) = []
     \<or> snd (handleAddComment st) =
         [Request POST (ProjectComments (projectId st)) [(''message'', JStr (newComment st))]])
   \<and> (\<forall>m r body. Request m r body \<in> set (snd (handleAddComment st)) \<longrightarrow>
        map fst body = [''message''] \<and> map_of body ''timestamp'' = None)
   \<and> (comment_append s caller pid msg nid now = Inr s' \<longrightarrow>
        srv_comments s' = srv_comments s @
          [\<lparr>sc_id = nid, sc_project = pid, sc_author = caller, sc_message = msg, sc_timestamp = now\<rparr>])"
  by (auto simp: handleAddComment_def comment_append_def split: option.splits if_splits)

text \<open>C9 on the sample service: member u2 comments on project A at time 9.\<close>

theorem comment_timestamp_from_server_witness:
  "Request POST (ProjectComments (js ''A'')) [(''message'', JStr (js ''hi''))]
     \<in> set (snd (handleAddComment ((detail_init (js ''A''))\<lparr>newComment := js ''hi''\<rparr>)))
   \<and> map fst [(''message'', JStr (js ''hi''))] = [''message'']
   \<and> comment_append sample_server (js ''u2'') (js ''A'') (js ''hi'') (js ''c2'') 9 =
       Inr (sample_server\<lparr>srv_comments := srv_comments sample_server @
         [\<lparr>sc_id = js ''c2'', sc_project = js ''A'', sc_author = js ''u2'', sc_message = js ''hi'',
           sc_timestamp = 9\<rparr>]\<rparr>)"
proof -
  have app: "comment_append sample_server (js ''u2'') (js ''A'') (js ''hi'') (js ''c2'') 9 =
       Inr (sample_server\<lparr>srv_comments := srv_comments sample_server @
         [\<lparr>sc_id = js ''c2'', sc_project = js ''A'', sc_author = js ''u2'', sc_message = js ''hi'',
           sc_timestamp = 9\<rparr>]\<rparr>)"
    by (simp add: comment_append_def find_project_def authorize_def members_def is_js_whitespace_def
        sample_server_def js_def)
  have req: "Request POST (ProjectComments (js ''A'')) [(''message'', JStr (js ''hi''))]
     \<in> set (snd (handleAddComment ((detail_init (js ''A''))\<lparr>newComment := js ''hi''\<rparr>)))"
    by (simp add: handleAddComment_def trim_def is_js_whitespace_def detail_init_def js_def)
  show ?thesis
    using comment_timestamp_from_server [where st = "(detail_init (js ''A''))\<lparr>newComment := js ''hi''\<rparr>"
        and s = sample_server and caller = "js ''u2''" and pid = "js ''A''" and msg = "js ''hi''"
        and nid = "js ''c2''" and now = 9
        and s' = "sample_server\<lparr>srv_comments := srv_comments sample_server @
         [\<lparr>sc_id = js ''c2'', sc_project = js ''A'', sc_author = js ''u2'', sc_message = js ''hi'',
           sc_timestamp = 9\<rparr>]\<rparr>"] app req
    by simp
qed

text \<open>
  C10. \<open>getTasksByStatus\<close> returns exactly the tasks of the current list whose status is
  the given string, in their order. The three board columns split the tasks that bear one
  of the three statuses (as multisets: no such task is lost or shown twice), two different
  columns share no task, and a task with any other status, null included, is in no column.
\<close>

theorem getTasksByStatus_board:
  "getTasksByStatus st s = filter (\<lambda>t. status t = JStr s) (tasks st)
   \<and> subseq (getTasksByStatus st s) (tasks st)
   \<and> mset (concat (map (getTasksByStatus st) board_columns)) =
       mset (filter (\<lambda>t. status t \<in> JStr ` set board_columns) (tasks st))
   \<and> (\<forall>a \<in> set board_columns. \<forall>b \<in> set board_columns.
         a \<noteq> b \<longrightarrow> set (getTasksByStatus st a) \<inter> set (getTasksByStatus st b) = {})
   \<and> (status t \<notin> JStr ` set board_columns \<longrightarrow>
         (\<forall>c \<in> set board_columns. t \<notin> set (getTasksByStatus st c)))"
proof (intro conjI)
  show "getTasksByStatus st s = filter (\<lambda>t. status t = JStr s) (tasks st)"
    by (rule getTasksByStatus_filter)
  show "subseq (getTasksByStatus st s) (tasks st)"
    by (simp add: getTasksByStatus_def)
  show "mset (concat (map (getTasksByStatus st) board_columns)) =
       mset (filter (\<lambda>t. status t \<in> JStr ` set board_columns) (tasks st))"
    by (rule columns_mset)
  show "\<forall>a \<in> set board_columns. \<forall>b \<in> set board_columns.
         a \<noteq> b \<longrightarrow> set (getTasksByStatus st a) \<inter> set (getTasksByStatus st b) = {}"
    using columns_disjoint by blast
  show "status t \<notin> JStr ` set board_columns \<longrightarrow>
         (\<forall>c \<in> set board_columns. t \<notin> set (getTasksByStatus st c))"
    by (auto simp: getTasksByStatus_filter)
qed

text \<open>C10 on a board of five tasks, one without status and one with an unknown one.\<close>

theorem getTasksByStatus_board_witness:
  "getTasksByStatus board_state (js ''Done'') =
     [board_task ''1'' (JStr (js ''Done'')), board_task ''4'' (JStr (js ''Done''))]
   \<and> js ''To-Do'' \<in> set board_columns \<and> js ''Done'' \<in> set board_columns \<and> js ''To-Do'' \<noteq> js ''Done''
   \<and> set (getTasksByStatus board_state (js ''To-Do'')) \<inter> set (getTasksByStatus board_state (js ''Done'')) = {}
   \<and> status (board_task ''5'' (JStr (js ''Blocked''))) \<notin> JStr ` set board_columns
   \<and> board_task ''5'' (JStr (js ''Blocked'')) \<notin> set (getTasksByStatus board_state (js ''To-Do''))
   \<and> board_task ''5'' (JStr (js ''Blocked'')) \<notin> set (getTasksByStatus board_state (js ''In Progress''))
   \<and> board_task ''5'' (JStr (js ''Blocked'')) \<notin> set (getTasksByStatus board_state (js ''Done''))"
  using getTasksByStatus_board [of board_state "js ''Done''" "board_task ''5'' (JStr (js ''Blocked''))"]
  by (simp add: board_state_def board_task_def board_columns_def js_def getTasksByStatus_def detail_init_def)

end
